theory Spec2Isabelle
  imports Complex_Main "HOL-Library.Sublist" "HOL-Library.Multiset"
begin

section \<open>The host application, as the script sees it\<close>

text \<open>
  \<^verbatim>\<open>Utility/main.py\<close> owns no data: every value it handles is a handle of the host
  (project, timeline, clip) and every operation is a call of the host's scripting API.
  The host is therefore a record that answers the script's reads and takes its writes,
  and a run of the script is the list of API calls it makes, in order, together with the
  messages it prints.

  A clip handle is an address into the host's clip store: two handles of one clip alias,
  and \<^verbatim>\<open>SetClipEnabled\<close> through one is seen through the other.
\<close>

type_synonym clip_id = nat

record clip =
  IsStill :: "string option"   \<comment> \<open>\<^verbatim>\<open>GetClipProperty("IsStill")\<close>; \<open>None\<close> when the marker is absent\<close>
  Start :: int                 \<comment> \<open>\<^verbatim>\<open>GetStart()\<close>\<close>
  Enabled :: bool              \<comment> \<open>written by \<^verbatim>\<open>SetClipEnabled\<close>\<close>

record host =
  project_open :: bool         \<comment> \<open>\<^verbatim>\<open>GetCurrentProject()\<close> returns a project, not \<^verbatim>\<open>None\<close>\<close>
  timeline_open :: bool        \<comment> \<open>\<^verbatim>\<open>GetCurrentTimeline()\<close> returns a timeline, not \<^verbatim>\<open>None\<close>\<close>
  settings :: "string \<rightharpoonup> string"  \<comment> \<open>the project settings\<close>
  accepts_setting :: bool      \<comment> \<open>whether the host takes a \<^verbatim>\<open>SetSetting\<close>\<close>
  tracks :: "clip_id list list" \<comment> \<open>the video tracks, each the handles of its items\<close>
  clips :: "clip_id \<Rightarrow> clip"   \<comment> \<open>the clip store\<close>
  selected :: "clip_id set"    \<comment> \<open>the timeline's clip selection\<close>

text \<open>
  The interpreter around the script: \<^verbatim>\<open>sys.platform\<close>, and the names that the embedding
  application has put into the module's global namespace before the script runs. The
  source cannot see the latter, so it is a parameter.
\<close>

record env =
  platform :: string
  preset_globals :: "string list"

datatype event =
    ScriptApp | GetProjectManager | GetCurrentProject | GetCurrentTimeline
  | GetSetting string | SetSetting string string
  | UIDispatcher
  | GetTrackCount | GetItemListInTrack nat
  | GetClipProperty clip_id string | GetStart clip_id
  | ClearClipSelections | SetClipEnabled clip_id bool | Select clip_id
  | KeyPress string | KeyReleaseAll
  | Sleep real

text \<open>The messages of the \<^verbatim>\<open>print\<close> calls, by source line, with the values they format.\<close>

datatype message =
    Msg_open_project_first                \<comment> \<open>line 80\<close>
  | Msg_open_timeline_first               \<comment> \<open>line 85\<close>
  | Msg_set_as_default string             \<comment> \<open>line 92\<close>
  | Msg_could_not_set "string option"     \<comment> \<open>line 94, with the current default\<close>
  | Msg_already_default string            \<comment> \<open>line 96\<close>
  | Msg_no_video_tracks                   \<comment> \<open>line 104\<close>
  | Msg_added nat nat                     \<comment> \<open>line 136\<close>
  | Msg_no_transitions_added              \<comment> \<open>line 138\<close>

datatype exn = NameError string

datatype outcome = Returned | Raised exn

record state =
  host :: host
  calls :: "event list"
  printed :: "message list"
  clips_selected :: nat
  transitions_added :: nat

definition call :: "event \<Rightarrow> state \<Rightarrow> state" where
  "call e s = s\<lparr>calls := calls s @ [e]\<rparr>"

definition py_print :: "message \<Rightarrow> state \<Rightarrow> state" where
  "py_print m s = s\<lparr>printed := printed s @ [m]\<rparr>"

subsection \<open>The API calls\<close>

definition project_GetSetting :: "string \<Rightarrow> state \<Rightarrow> string option \<times> state" where
  "project_GetSetting k s = (settings (host s) k, call (GetSetting k) s)"

definition project_SetSetting :: "string \<Rightarrow> string \<Rightarrow> state \<Rightarrow> bool \<times> state" where
  "project_SetSetting k v s =
     (let s = call (SetSetting k v) s in
      if accepts_setting (host s)
      then (True, s\<lparr>host := (host s)\<lparr>settings := (settings (host s))(k \<mapsto> v)\<rparr>\<rparr>)
      else (False, s))"

definition timeline_GetTrackCount :: "state \<Rightarrow> nat \<times> state" where
  "timeline_GetTrackCount s = (length (tracks (host s)), call GetTrackCount s)"

definition timeline_GetItemListInTrack :: "nat \<Rightarrow> state \<Rightarrow> clip_id list \<times> state" where
  "timeline_GetItemListInTrack idx s =
     (tracks (host s) ! (idx - 1), call (GetItemListInTrack idx) s)"

definition timeline_ClearClipSelections :: "state \<Rightarrow> state" where
  "timeline_ClearClipSelections s =
     call ClearClipSelections (s\<lparr>host := (host s)\<lparr>selected := {}\<rparr>\<rparr>)"

definition clip_GetClipProperty :: "clip_id \<Rightarrow> string \<Rightarrow> state \<Rightarrow> string option \<times> state" where
  "clip_GetClipProperty c name s =
     (if name = ''IsStill'' then IsStill (clips (host s) c) else None,
      call (GetClipProperty c name) s)"

definition clip_GetStart :: "clip_id \<Rightarrow> state \<Rightarrow> int \<times> state" where
  "clip_GetStart c s = (Start (clips (host s) c), call (GetStart c) s)"

definition clip_SetClipEnabled :: "clip_id \<Rightarrow> bool \<Rightarrow> state \<Rightarrow> state" where
  "clip_SetClipEnabled c b s =
     call (SetClipEnabled c b)
       (s\<lparr>host := (host s)\<lparr>clips := (clips (host s))(c := (clips (host s) c)\<lparr>Enabled := b\<rparr>)\<rparr>\<rparr>)"

definition clip_Select :: "clip_id \<Rightarrow> state \<Rightarrow> state" where
  "clip_Select c s =
     call (Select c) (s\<lparr>host := (host s)\<lparr>selected := insert c (selected (host s))\<rparr>\<rparr>)"

section \<open>The script\<close>

definition TRANSITION_NAME :: string where
  "TRANSITION_NAME = ''Additive Dissolve''"

text \<open>The source writes the decimal \<^verbatim>\<open>0.15\<close> (seconds); the model keeps that decimal.\<close>

definition DEFAULT_UI_TIMEOUT :: real where
  "DEFAULT_UI_TIMEOUT = 0.15"

text \<open>
  \<^verbatim>\<open>
  def ui_keystroke(ui, *keys):
      for key in keys:
          ui.KeyPress(key)
      ui.KeyReleaseAll()
      time.sleep(DEFAULT_UI_TIMEOUT)
  \<close>
\<close>

definition ui_keystroke :: "string list \<Rightarrow> state \<Rightarrow> state" where
  "ui_keystroke keys s =
     (let s = fold (\<lambda>key. call (KeyPress key)) keys s;
          s = call KeyReleaseAll s
      in call (Sleep DEFAULT_UI_TIMEOUT) s)"

text \<open>
  Line 113, \<^verbatim>\<open>[it for it in items if it.GetClipProperty("IsStill") == "True"]\<close>:
  one read per item, in list order.
\<close>

fun keep_stills :: "clip_id list \<Rightarrow> state \<Rightarrow> clip_id list \<times> state" where
  "keep_stills [] s = ([], s)"
| "keep_stills (it # items) s =
     (let (v, s) = clip_GetClipProperty it ''IsStill'' s;
          (rest, s) = keep_stills items s
      in (if v = Some ''True'' then it # rest else rest, s))"

text \<open>
  Line 118, \<^verbatim>\<open>stills.sort(key=lambda c: c.GetStart())\<close>: Python computes the key of every
  element once, in list order, and then sorts stably on the keys.
\<close>

fun start_keys :: "clip_id list \<Rightarrow> state \<Rightarrow> (int \<times> clip_id) list \<times> state" where
  "start_keys [] s = ([], s)"
| "start_keys (c # cs) s =
     (let (k, s) = clip_GetStart c s;
          (rest, s) = start_keys cs s
      in ((k, c) # rest, s))"

definition sort_by_start :: "clip_id list \<Rightarrow> state \<Rightarrow> clip_id list \<times> state" where
  "sort_by_start stills s =
     (let (keyed, s) = start_keys stills s in (map snd (sort_key fst keyed), s))"

text \<open>Lines 122 to 127: the selection of one pair.\<close>

definition select_pair :: "clip_id \<times> clip_id \<Rightarrow> state \<Rightarrow> state" where
  "select_pair ab s =
     (case ab of (clip_a, clip_b) \<Rightarrow>
        let s = timeline_ClearClipSelections s;
            s = clip_SetClipEnabled clip_a True s;
            s = clip_SetClipEnabled clip_b True s;
            s = clip_Select clip_a s;
            s = clip_Select clip_b s
        in s\<lparr>clips_selected := clips_selected s + 2\<rparr>)"

text \<open>Lines 120 to 131: the body of the loop over \<^verbatim>\<open>zip(stills, stills[1:])\<close>.\<close>

definition pair_body :: "string \<Rightarrow> clip_id \<times> clip_id \<Rightarrow> state \<Rightarrow> state" where
  "pair_body plat ab s =
     (let s = select_pair ab s;
          s = (if prefix ''win'' plat then ui_keystroke [''Ctrl'', ''T''] s
               else ui_keystroke [''Cmd'', ''T''] s)
      in s\<lparr>transitions_added := transitions_added s + 1\<rparr>)"

text \<open>Lines 110 to 131: the body of the loop over the track indices.\<close>

definition track_body :: "string \<Rightarrow> nat \<Rightarrow> state \<Rightarrow> state" where
  "track_body plat track_idx s =
     (let (items, s) = timeline_GetItemListInTrack track_idx s;
          (stills, s) = keep_stills items s
      in if length stills < 2 then s
         else let (stills, s) = sort_by_start stills s
              in fold (pair_body plat) (zip stills (tl stills)) s)"

text \<open>
  Name lookup. A free name of \<^verbatim>\<open>main\<close> is looked up in the module's globals and then in
  the builtins. The module binds the names below (lines 52 to 75); of the builtins only
  those \<^verbatim>\<open>main\<close> uses are listed.
\<close>

definition module_globals :: "string list" where
  "module_globals =
     [''sys'', ''time'', ''dvr'', ''TRANSITION_FRAMES'', ''TRANSITION_NAME'',
      ''DEFAULT_UI_TIMEOUT'', ''ui_keystroke'', ''main'']"

definition builtin_names :: "string list" where
  "builtin_names = [''print'', ''range'', ''len'', ''zip'']"

definition name_bound :: "env \<Rightarrow> string \<Rightarrow> bool" where
  "name_bound e n =
     (n \<in> set (preset_globals e) \<or> n \<in> set module_globals \<or> n \<in> set builtin_names)"

text \<open>The global names \<^verbatim>\<open>main\<close> evaluates, in the order of their first use.\<close>

definition main_global_names :: "string list" where
  "main_global_names =
     [''dvr'', ''print'', ''TRANSITION_NAME'', ''bmd'', ''range'', ''len'', ''zip'',
      ''ui_keystroke'', ''sys'']"

definition init :: "host \<Rightarrow> state" where
  "init h = \<lparr>host = h, calls = [], printed = [], clips_selected = 0, transitions_added = 0\<rparr>"

text \<open>Lines 88 to 96.\<close>

definition ensure_default_transition :: "state \<Rightarrow> state" where
  "ensure_default_transition s =
     (let (cur, s) = project_GetSetting ''standardVideoTransition'' s in
      if cur \<noteq> Some TRANSITION_NAME
      then let (ok, s) = project_SetSetting ''standardVideoTransition'' TRANSITION_NAME s in
           if ok then py_print (Msg_set_as_default TRANSITION_NAME) s
           else let (cur, s) = project_GetSetting ''standardVideoTransition'' s
                in py_print (Msg_could_not_set cur) s
      else py_print (Msg_already_default TRANSITION_NAME) s)"

text \<open>
  Lines 75 to 138. Line 100 evaluates the name \<^verbatim>\<open>bmd\<close>, the only global name of
  \<^verbatim>\<open>main\<close> that the module does not bind itself.
\<close>

definition main :: "env \<Rightarrow> host \<Rightarrow> outcome \<times> state" where
  "main e h =
     (let s = init h;
          s = call ScriptApp s;
          s = call GetProjectManager s;
          s = call GetCurrentProject s
      in if \<not> project_open (host s) then (Returned, py_print Msg_open_project_first s)
      else
      let s = call GetCurrentTimeline s
      in if \<not> timeline_open (host s) then (Returned, py_print Msg_open_timeline_first s)
      else
      let s = ensure_default_transition s
      in if \<not> name_bound e ''bmd'' then (Raised (NameError ''bmd''), s)
      else
      let s = call UIDispatcher s;
          (video_tracks, s) = timeline_GetTrackCount s
      in if video_tracks = 0 then (Returned, py_print Msg_no_video_tracks s)
      else
      let s = fold (track_body (platform e)) [1 ..< video_tracks + 1] s;
          s = timeline_ClearClipSelections s
      in if transitions_added s \<noteq> 0
         then (Returned,
               py_print (Msg_added (transitions_added s) (clips_selected s div 2)) s)
         else (Returned, py_print Msg_no_transitions_added s))"

definition is_still :: "host \<Rightarrow> clip_id \<Rightarrow> bool" where
  "is_still h c = (IsStill (clips h c) = Some ''True'')"

definition stills_of :: "host \<Rightarrow> clip_id list \<Rightarrow> clip_id list" where
  "stills_of h items = filter (is_still h) items"

definition ordered_stills :: "host \<Rightarrow> clip_id list \<Rightarrow> clip_id list" where
  "ordered_stills h items = sort_key (\<lambda>c. Start (clips h c)) (stills_of h items)"

definition adjacent_pairs :: "'a list \<Rightarrow> ('a \<times> 'a) list" where
  "adjacent_pairs xs = zip xs (tl xs)"

definition media :: "host \<Rightarrow> clip_id list list \<times> (clip_id \<Rightarrow> string option \<times> int)" where
  "media h = (tracks h, \<lambda>c. (IsStill (clips h c), Start (clips h c)))"

definition shortcut_keys :: "string \<Rightarrow> string list" where
  "shortcut_keys plat = [if prefix ''win'' plat then ''Ctrl'' else ''Cmd'', ''T'']"

definition pair_calls :: "string \<Rightarrow> clip_id \<times> clip_id \<Rightarrow> event list" where
  "pair_calls plat ab =
     [ClearClipSelections, SetClipEnabled (fst ab) True, SetClipEnabled (snd ab) True,
      Select (fst ab), Select (snd ab)]
     @ map KeyPress (shortcut_keys plat) @ [KeyReleaseAll, Sleep DEFAULT_UI_TIMEOUT]"

definition track_calls :: "string \<Rightarrow> host \<Rightarrow> nat \<Rightarrow> event list" where
  "track_calls plat h idx =
     (let items = tracks h ! (idx - 1) in
      GetItemListInTrack idx # map (\<lambda>it. GetClipProperty it ''IsStill'') items
      @ (if length (stills_of h items) < 2 then []
         else map GetStart (stills_of h items)
              @ concat (map (pair_calls plat) (adjacent_pairs (ordered_stills h items)))))"

definition track_pairs :: "host \<Rightarrow> nat \<Rightarrow> (clip_id \<times> clip_id) list" where
  "track_pairs h idx = adjacent_pairs (ordered_stills h (tracks h ! (idx - 1)))"

definition setting_calls :: "host \<Rightarrow> event list" where
  "setting_calls h =
     GetSetting ''standardVideoTransition''
     # (if settings h ''standardVideoTransition'' = Some TRANSITION_NAME then []
        else SetSetting ''standardVideoTransition'' TRANSITION_NAME
             # (if accepts_setting h then [] else [GetSetting ''standardVideoTransition'']))"

definition setting_message :: "host \<Rightarrow> message" where
  "setting_message h =
     (if settings h ''standardVideoTransition'' = Some TRANSITION_NAME
      then Msg_already_default TRANSITION_NAME
      else if accepts_setting h then Msg_set_as_default TRANSITION_NAME
      else Msg_could_not_set (settings h ''standardVideoTransition''))"

definition settings_after :: "host \<Rightarrow> string \<rightharpoonup> string" where
  "settings_after h =
     (if settings h ''standardVideoTransition'' \<noteq> Some TRANSITION_NAME \<and> accepts_setting h
      then (settings h)(''standardVideoTransition'' \<mapsto> TRANSITION_NAME)
      else settings h)"

definition after_settings :: "host \<Rightarrow> state" where
  "after_settings h =
     ensure_default_transition
       (call GetCurrentTimeline (call GetCurrentProject (call GetProjectManager
          (call ScriptApp (init h)))))"

definition after_loop :: "env \<Rightarrow> host \<Rightarrow> state" where
  "after_loop e h =
     timeline_ClearClipSelections
       (fold (track_body (platform e)) [1 ..< length (tracks h) + 1]
          (call GetTrackCount (call UIDispatcher (after_settings h))))"

definition report :: "state \<Rightarrow> state" where
  "report s =
     (if transitions_added s \<noteq> 0
      then py_print (Msg_added (transitions_added s) (clips_selected s div 2)) s
      else py_print Msg_no_transitions_added s)"

definition track_indices :: "host \<Rightarrow> nat list" where
  "track_indices h = [1 ..< length (tracks h) + 1]"

definition all_pairs :: "host \<Rightarrow> (clip_id \<times> clip_id) list" where
  "all_pairs h = concat (map (track_pairs h) (track_indices h))"

definition reaches_loop :: "env \<Rightarrow> host \<Rightarrow> bool" where
  "reaches_loop e h =
     (project_open h \<and> timeline_open h \<and> name_bound e ''bmd'' \<and> tracks h \<noteq> [])"

definition run_pairs :: "env \<Rightarrow> host \<Rightarrow> (clip_id \<times> clip_id) list" where
  "run_pairs e h = (if reaches_loop e h then all_pairs h else [])"

definition main_calls :: "env \<Rightarrow> host \<Rightarrow> event list" where
  "main_calls e h =
     [ScriptApp, GetProjectManager, GetCurrentProject]
     @ (if \<not> project_open h then []
        else GetCurrentTimeline
          # (if \<not> timeline_open h then []
             else setting_calls h
               @ (if \<not> name_bound e ''bmd'' then []
                  else [UIDispatcher, GetTrackCount]
                    @ (if tracks h = [] then []
                       else concat (map (track_calls (platform e) h) (track_indices h))
                            @ [ClearClipSelections]))))"

definition studio_win :: env where
  "studio_win = \<lparr>platform = ''win32'', preset_globals = [''bmd'']\<rparr>"

definition studio_mac :: env where
  "studio_mac = \<lparr>platform = ''darwin'', preset_globals = [''bmd'']\<rparr>"

definition plain_python :: env where
  "plain_python = \<lparr>platform = ''darwin'', preset_globals = []\<rparr>"

definition two_stills :: host where
  "two_stills =
     \<lparr>project_open = True, timeline_open = True, settings = Map.empty,
      accepts_setting = True, tracks = [[1, 2]],
      clips = (\<lambda>c. \<lparr>IsStill = Some ''True'', Start = (if c = 1 then 100 else 0),
                     Enabled = (c \<noteq> 1)\<rparr>),
      selected = {}\<rparr>"

definition lone_still :: host where
  "lone_still =
     \<lparr>project_open = True, timeline_open = True,
      settings = [''standardVideoTransition'' \<mapsto> ''Additive Dissolve''],
      accepts_setting = True, tracks = [[1, 2]],
      clips = (\<lambda>c. \<lparr>IsStill = (if c = 1 then Some ''True'' else Some ''False''),
                     Start = 0, Enabled = True\<rparr>),
      selected = {}\<rparr>"

definition empty_timeline :: host where
  "empty_timeline =
     \<lparr>project_open = True, timeline_open = True,
      settings = [''standardVideoTransition'' \<mapsto> ''Additive Dissolve''],
      accepts_setting = True, tracks = [],
      clips = (\<lambda>c. \<lparr>IsStill = None, Start = 0, Enabled = True\<rparr>),
      selected = {}\<rparr>"

text \<open>
  The sequence of calls as the specification words it: per pair the two selections and the
  shortcut with its sleep, and nothing else; everything outside the pair as the code has it.
\<close>

definition described_pair_calls :: "string \<Rightarrow> clip_id \<times> clip_id \<Rightarrow> event list" where
  "described_pair_calls plat ab =
     [Select (fst ab), Select (snd ab)]
     @ map KeyPress (shortcut_keys plat) @ [KeyReleaseAll, Sleep DEFAULT_UI_TIMEOUT]"

definition described_track_calls :: "string \<Rightarrow> host \<Rightarrow> nat \<Rightarrow> event list" where
  "described_track_calls plat h idx =
     (let items = tracks h ! (idx - 1) in
      GetItemListInTrack idx # map (\<lambda>it. GetClipProperty it ''IsStill'') items
      @ (if length (stills_of h items) < 2 then []
         else map GetStart (stills_of h items)
              @ concat (map (described_pair_calls plat)
                          (adjacent_pairs (ordered_stills h items)))))"

definition described_calls :: "env \<Rightarrow> host \<Rightarrow> event list" where
  "described_calls e h =
     [ScriptApp, GetProjectManager, GetCurrentProject, GetCurrentTimeline]
     @ setting_calls h @ [UIDispatcher, GetTrackCount]
     @ concat (map (described_track_calls (platform e) h) (track_indices h))
     @ [ClearClipSelections]"

definition main_messages :: "env \<Rightarrow> host \<Rightarrow> message list" where
  "main_messages e h =
     (if \<not> project_open h then [Msg_open_project_first]
      else if \<not> timeline_open h then [Msg_open_timeline_first]
      else setting_message h
        # (if \<not> name_bound e ''bmd'' then []
           else if tracks h = [] then [Msg_no_video_tracks]
           else if all_pairs h = [] then [Msg_no_transitions_added]
           else [Msg_added (length (all_pairs h)) (length (all_pairs h))]))"

section \<open>Proofs\<close>

subsection \<open>The keystroke\<close>

lemma calls_fold_KeyPress:
  "calls (fold (\<lambda>key. call (KeyPress key)) keys s) = calls s @ map KeyPress keys"
  by (induction keys arbitrary: s) (simp_all add: call_def)

lemma host_fold_KeyPress:
  "host (fold (\<lambda>key. call (KeyPress key)) keys s) = host s"
  by (induction keys arbitrary: s) (simp_all add: call_def)

text \<open>
  C7. \<^verbatim>\<open>ui_keystroke\<close> presses each given key in order, then releases all keys, then
  sleeps for \<^verbatim>\<open>DEFAULT_UI_TIMEOUT\<close>, which is 0.15 seconds, on every call; it makes no other
  call, and returns after the sleep.
\<close>

theorem ui_keystroke_calls:
  "calls (ui_keystroke keys s) =
     calls s @ map KeyPress keys @ [KeyReleaseAll, Sleep DEFAULT_UI_TIMEOUT]
   \<and> DEFAULT_UI_TIMEOUT = 0.15"
  by (simp add: ui_keystroke_def call_def calls_fold_KeyPress DEFAULT_UI_TIMEOUT_def)

lemma keep_stills_eq:
  "keep_stills items s =
     (stills_of (host s) items,
      s\<lparr>calls := calls s @ map (\<lambda>it. GetClipProperty it ''IsStill'') items\<rparr>)"
  by (induction items arbitrary: s)
     (simp_all add: stills_of_def is_still_def clip_GetClipProperty_def call_def)

lemma start_keys_eq:
  "start_keys cs s =
     (map (\<lambda>c. (Start (clips (host s) c), c)) cs, s\<lparr>calls := calls s @ map GetStart cs\<rparr>)"
  by (induction cs arbitrary: s) (simp_all add: clip_GetStart_def call_def)

lemma insort_key_decorated:
  "insort_key fst (f x, x) (map (\<lambda>c. (f c, c)) ys) = map (\<lambda>c. (f c, c)) (insort_key f x ys)"
  by (induction ys) simp_all

lemma sort_key_decorated:
  "map snd (sort_key fst (map (\<lambda>c. (f c, c)) cs)) = sort_key f cs"
proof -
  have "sort_key fst (map (\<lambda>c. (f c, c)) cs) = map (\<lambda>c. (f c, c)) (sort_key f cs)"
    by (induction cs) (simp_all add: insort_key_decorated)
  then show ?thesis by (simp add: comp_def)
qed

lemma sort_by_start_eq:
  "sort_by_start cs s =
     (sort_key (\<lambda>c. Start (clips (host s) c)) cs, s\<lparr>calls := calls s @ map GetStart cs\<rparr>)"
  by (simp add: sort_by_start_def start_keys_eq sort_key_decorated)

lemma media_eqD:
  assumes "media h' = media h"
  shows "tracks h' = tracks h" and "stills_of h' = stills_of h"
    and "ordered_stills h' = ordered_stills h"
proof -
  from assms show t: "tracks h' = tracks h" by (simp add: media_def)
  from assms have c: "\<And>c. IsStill (clips h' c) = IsStill (clips h c)
                        \<and> Start (clips h' c) = Start (clips h c)"
    by (auto simp add: media_def fun_eq_iff)
  then have i: "is_still h' = is_still h" by (simp add: is_still_def fun_eq_iff)
  have "\<And>items. stills_of h' items = stills_of h items"
    by (simp add: stills_of_def i)
  then show s: "stills_of h' = stills_of h" by (rule ext)
  from c have k: "(\<lambda>c. Start (clips h' c)) = (\<lambda>c. Start (clips h c))" by simp
  have "\<And>items. ordered_stills h' items = ordered_stills h items"
    by (simp add: ordered_stills_def s k)
  then show "ordered_stills h' = ordered_stills h" by (rule ext)
qed

lemma track_calls_media:
  assumes "media h' = media h"
  shows "track_calls plat h' idx = track_calls plat h idx"
  unfolding track_calls_def media_eqD(1)[OF assms] media_eqD(2)[OF assms]
    media_eqD(3)[OF assms]
  by (rule refl)

subsection \<open>One pair\<close>

lemma calls_ui_keystroke:
  "calls (ui_keystroke keys s) =
     calls s @ map KeyPress keys @ [KeyReleaseAll, Sleep DEFAULT_UI_TIMEOUT]"
  by (simp add: ui_keystroke_def call_def calls_fold_KeyPress Let_def)

lemma ui_keystroke_frame:
  "host (ui_keystroke keys s) = host s"
  "printed (ui_keystroke keys s) = printed s"
  "clips_selected (ui_keystroke keys s) = clips_selected s"
  "transitions_added (ui_keystroke keys s) = transitions_added s"
proof -
  have f: "\<And>s. printed (fold (\<lambda>key. call (KeyPress key)) keys s) = printed s
             \<and> clips_selected (fold (\<lambda>key. call (KeyPress key)) keys s) = clips_selected s
             \<and> transitions_added (fold (\<lambda>key. call (KeyPress key)) keys s) = transitions_added s"
    by (induction keys) (simp_all add: call_def)
  show "host (ui_keystroke keys s) = host s"
    by (simp add: ui_keystroke_def call_def host_fold_KeyPress Let_def)
  show "printed (ui_keystroke keys s) = printed s"
    by (simp add: ui_keystroke_def call_def f Let_def)
  show "clips_selected (ui_keystroke keys s) = clips_selected s"
    by (simp add: ui_keystroke_def call_def f Let_def)
  show "transitions_added (ui_keystroke keys s) = transitions_added s"
    by (simp add: ui_keystroke_def call_def f Let_def)
qed

lemma call_fields:
  "calls (call e s) = calls s @ [e]"
  "host (call e s) = host s"
  "printed (call e s) = printed s"
  "clips_selected (call e s) = clips_selected s"
  "transitions_added (call e s) = transitions_added s"
  by (simp_all add: call_def)

lemma ClearClipSelections_fields:
  "calls (timeline_ClearClipSelections s) = calls s @ [ClearClipSelections]"
  "host (timeline_ClearClipSelections s) = (host s)\<lparr>selected := {}\<rparr>"
  "printed (timeline_ClearClipSelections s) = printed s"
  "clips_selected (timeline_ClearClipSelections s) = clips_selected s"
  "transitions_added (timeline_ClearClipSelections s) = transitions_added s"
  by (simp_all add: timeline_ClearClipSelections_def call_def)

lemma SetClipEnabled_fields:
  "calls (clip_SetClipEnabled c b s) = calls s @ [SetClipEnabled c b]"
  "host (clip_SetClipEnabled c b s) =
     (host s)\<lparr>clips := (clips (host s))(c := (clips (host s) c)\<lparr>Enabled := b\<rparr>)\<rparr>"
  "printed (clip_SetClipEnabled c b s) = printed s"
  "clips_selected (clip_SetClipEnabled c b s) = clips_selected s"
  "transitions_added (clip_SetClipEnabled c b s) = transitions_added s"
  by (simp_all add: clip_SetClipEnabled_def call_def)

lemma Select_fields:
  "calls (clip_Select c s) = calls s @ [Select c]"
  "host (clip_Select c s) = (host s)\<lparr>selected := insert c (selected (host s))\<rparr>"
  "printed (clip_Select c s) = printed s"
  "clips_selected (clip_Select c s) = clips_selected s"
  "transitions_added (clip_Select c s) = transitions_added s"
  by (simp_all add: clip_Select_def call_def)

lemmas api_fields = call_fields ClearClipSelections_fields SetClipEnabled_fields Select_fields

lemma select_pair_calls:
  "calls (select_pair ab s) =
     calls s @ [ClearClipSelections, SetClipEnabled (fst ab) True, SetClipEnabled (snd ab) True,
                Select (fst ab), Select (snd ab)]"
  by (simp add: select_pair_def Let_def api_fields split: prod.split)

lemma select_pair_selected:
  "selected (host (select_pair ab s)) = {fst ab, snd ab}"
  by (simp add: select_pair_def Let_def api_fields insert_commute split: prod.split)

lemma select_pair_frame:
  "media (host (select_pair ab s)) = media (host s)"
  "settings (host (select_pair ab s)) = settings (host s)"
  "printed (select_pair ab s) = printed s"
  "clips_selected (select_pair ab s) = clips_selected s + 2"
  "transitions_added (select_pair ab s) = transitions_added s"
  by (simp_all add: select_pair_def Let_def api_fields media_def fun_eq_iff split: prod.split)

lemma select_pair_Enabled:
  "Enabled (clips (host (select_pair ab s)) c) =
     (c = fst ab \<or> c = snd ab \<or> Enabled (clips (host s) c))"
  by (simp add: select_pair_def Let_def api_fields split: prod.split)

lemma pair_body_calls:
  "calls (pair_body plat ab s) = calls s @ pair_calls plat ab"
  by (simp add: pair_body_def pair_calls_def shortcut_keys_def calls_ui_keystroke
        select_pair_calls Let_def)

lemma pair_body_host:
  "host (pair_body plat ab s) = host (select_pair ab s)"
  by (simp add: pair_body_def ui_keystroke_frame Let_def)

lemma pair_body_frame:
  "media (host (pair_body plat ab s)) = media (host s)"
  "settings (host (pair_body plat ab s)) = settings (host s)"
  "printed (pair_body plat ab s) = printed s"
  "clips_selected (pair_body plat ab s) = clips_selected s + 2"
  "transitions_added (pair_body plat ab s) = transitions_added s + 1"
  by (simp_all add: pair_body_def ui_keystroke_frame select_pair_frame Let_def)

subsection \<open>The pairs of one track\<close>

lemma fold_pair_body_calls:
  "calls (fold (pair_body plat) ps s) = calls s @ concat (map (pair_calls plat) ps)"
  by (induction ps arbitrary: s) (simp_all add: pair_body_calls)

lemma fold_pair_body_frame:
  "media (host (fold (pair_body plat) ps s)) = media (host s)"
  "settings (host (fold (pair_body plat) ps s)) = settings (host s)"
  "printed (fold (pair_body plat) ps s) = printed s"
  "clips_selected (fold (pair_body plat) ps s) = clips_selected s + 2 * length ps"
  "transitions_added (fold (pair_body plat) ps s) = transitions_added s + length ps"
  by (induction ps arbitrary: s) (simp_all add: pair_body_frame)

lemma fold_pair_body_Enabled:
  "Enabled (clips (host (fold (pair_body plat) ps s)) c) =
     (c \<in> fst ` set ps \<or> c \<in> snd ` set ps \<or> Enabled (clips (host s) c))"
  by (induction ps arbitrary: s) (auto simp add: pair_body_host select_pair_Enabled)

subsection \<open>One track\<close>

lemma adjacent_pairs_short: "length xs < 2 \<Longrightarrow> adjacent_pairs xs = []"
  by (cases xs) (simp_all add: adjacent_pairs_def)

lemma length_adjacent_pairs: "length (adjacent_pairs xs) = length xs - 1"
  by (simp add: adjacent_pairs_def)

lemma length_ordered_stills:
  "length (ordered_stills h items) = length (stills_of h items)"
  by (simp add: ordered_stills_def)

lemma track_pairs_media:
  assumes "media h' = media h"
  shows "track_pairs h' idx = track_pairs h idx"
  unfolding track_pairs_def media_eqD(1)[OF assms] media_eqD(3)[OF assms]
  by (rule refl)

lemma track_body_eq:
  "track_body plat idx s =
     (if length (stills_of (host s) (tracks (host s) ! (idx - 1))) < 2
      then s\<lparr>calls := calls s @ track_calls plat (host s) idx\<rparr>
      else fold (pair_body plat) (track_pairs (host s) idx)
             (s\<lparr>calls := calls s @ GetItemListInTrack idx
                    # map (\<lambda>it. GetClipProperty it ''IsStill'') (tracks (host s) ! (idx - 1))
                    @ map GetStart (stills_of (host s) (tracks (host s) ! (idx - 1)))\<rparr>))"
  by (simp add: track_body_def timeline_GetItemListInTrack_def keep_stills_eq sort_by_start_eq
        call_def Let_def track_calls_def track_pairs_def ordered_stills_def adjacent_pairs_def)

lemma track_body_calls:
  "calls (track_body plat idx s) = calls s @ track_calls plat (host s) idx"
  by (simp add: track_body_eq fold_pair_body_calls)
     (simp add: track_calls_def track_pairs_def Let_def)

lemma track_body_frame:
  "media (host (track_body plat idx s)) = media (host s)"
  "settings (host (track_body plat idx s)) = settings (host s)"
  "printed (track_body plat idx s) = printed s"
  "clips_selected (track_body plat idx s) = clips_selected s + 2 * length (track_pairs (host s) idx)"
  "transitions_added (track_body plat idx s) = transitions_added s + length (track_pairs (host s) idx)"
  by (simp_all add: track_body_eq fold_pair_body_frame track_pairs_def adjacent_pairs_short
        length_ordered_stills)

lemma track_body_Enabled:
  "Enabled (clips (host (track_body plat idx s)) c) =
     (c \<in> fst ` set (track_pairs (host s) idx) \<or> c \<in> snd ` set (track_pairs (host s) idx)
      \<or> Enabled (clips (host s) c))"
  by (simp add: track_body_eq fold_pair_body_Enabled track_pairs_def adjacent_pairs_short
        length_ordered_stills)

subsection \<open>All tracks\<close>

lemma fold_track_body_media:
  "media (host (fold (track_body plat) idxs s)) = media (host s)"
  by (induction idxs arbitrary: s) (simp_all add: track_body_frame)

lemma fold_track_body_calls:
  "calls (fold (track_body plat) idxs s) =
     calls s @ concat (map (track_calls plat (host s)) idxs)"
proof (induction idxs arbitrary: s)
  case Nil
  show ?case by simp
next
  case (Cons i idxs)
  have "track_calls plat (host (track_body plat i s)) = track_calls plat (host s)"
    by (rule ext, rule track_calls_media, rule track_body_frame(1))
  then show ?case by (simp add: Cons.IH track_body_calls)
qed

lemma fold_track_body_frame:
  "settings (host (fold (track_body plat) idxs s)) = settings (host s)"
  "printed (fold (track_body plat) idxs s) = printed s"
  by (induction idxs arbitrary: s) (simp_all add: track_body_frame)

lemma fold_track_body_counters:
  "transitions_added (fold (track_body plat) idxs s) =
     transitions_added s + length (concat (map (track_pairs (host s)) idxs))
   \<and> clips_selected (fold (track_body plat) idxs s) =
     clips_selected s + 2 * length (concat (map (track_pairs (host s)) idxs))"
proof (induction idxs arbitrary: s)
  case Nil
  show ?case by simp
next
  case (Cons i idxs)
  have "track_pairs (host (track_body plat i s)) = track_pairs (host s)"
    by (rule ext, rule track_pairs_media, rule track_body_frame(1))
  then show ?case by (simp add: Cons.IH track_body_frame)
qed

lemma fold_track_body_Enabled:
  "Enabled (clips (host (fold (track_body plat) idxs s)) c) =
     (c \<in> fst ` set (concat (map (track_pairs (host s)) idxs))
      \<or> c \<in> snd ` set (concat (map (track_pairs (host s)) idxs))
      \<or> Enabled (clips (host s) c))"
proof (induction idxs arbitrary: s)
  case Nil
  show ?case by simp
next
  case (Cons i idxs)
  have "track_pairs (host (track_body plat i s)) = track_pairs (host s)"
    by (rule ext, rule track_pairs_media, rule track_body_frame(1))
  then show ?case by (auto simp add: Cons.IH track_body_Enabled)
qed

subsection \<open>The settings step\<close>

lemma ensure_default_transition_fields:
  "calls (ensure_default_transition s) = calls s @ setting_calls (host s)"
  "printed (ensure_default_transition s) = printed s @ [setting_message (host s)]"
  "host (ensure_default_transition s) = (host s)\<lparr>settings := settings_after (host s)\<rparr>"
  "clips_selected (ensure_default_transition s) = clips_selected s"
  "transitions_added (ensure_default_transition s) = transitions_added s"
  by (simp_all add: ensure_default_transition_def project_GetSetting_def
        project_SetSetting_def call_def py_print_def Let_def setting_calls_def
        setting_message_def settings_after_def)

subsection \<open>The five ways through main\<close>

lemma after_settings_fields:
  "calls (after_settings h) =
     [ScriptApp, GetProjectManager, GetCurrentProject, GetCurrentTimeline] @ setting_calls h"
  "printed (after_settings h) = [setting_message h]"
  "host (after_settings h) = h\<lparr>settings := settings_after h\<rparr>"
  "clips_selected (after_settings h) = 0"
  "transitions_added (after_settings h) = 0"
  by (simp_all add: after_settings_def ensure_default_transition_fields call_fields init_def)

lemma main_no_project:
  "\<not> project_open h \<Longrightarrow>
   main e h = (Returned, py_print Msg_open_project_first
     (call GetCurrentProject (call GetProjectManager (call ScriptApp (init h)))))"
  by (simp add: main_def Let_def call_fields init_def)

lemma main_no_timeline:
  "project_open h \<Longrightarrow> \<not> timeline_open h \<Longrightarrow>
   main e h = (Returned, py_print Msg_open_timeline_first
     (call GetCurrentTimeline (call GetCurrentProject (call GetProjectManager
        (call ScriptApp (init h))))))"
  by (simp add: main_def Let_def call_fields init_def)

lemma main_unbound:
  "project_open h \<Longrightarrow> timeline_open h \<Longrightarrow> \<not> name_bound e ''bmd'' \<Longrightarrow>
   main e h = (Raised (NameError ''bmd''), after_settings h)"
  by (simp add: main_def Let_def call_fields init_def after_settings_def)

lemma main_no_tracks:
  "project_open h \<Longrightarrow> timeline_open h \<Longrightarrow> name_bound e ''bmd'' \<Longrightarrow> tracks h = [] \<Longrightarrow>
   main e h = (Returned, py_print Msg_no_video_tracks
     (call GetTrackCount (call UIDispatcher (after_settings h))))"
  by (simp add: main_def Let_def call_fields init_def after_settings_def
        timeline_GetTrackCount_def ensure_default_transition_fields)

lemma main_loop:
  "project_open h \<Longrightarrow> timeline_open h \<Longrightarrow> name_bound e ''bmd'' \<Longrightarrow> tracks h \<noteq> [] \<Longrightarrow>
   main e h = (Returned, report (after_loop e h))"
  by (simp add: main_def Let_def call_fields init_def after_settings_def after_loop_def
        report_def timeline_GetTrackCount_def ensure_default_transition_fields)

subsection \<open>The whole run\<close>

lemma py_print_fields:
  "calls (py_print m s) = calls s"
  "host (py_print m s) = host s"
  "printed (py_print m s) = printed s @ [m]"
  "clips_selected (py_print m s) = clips_selected s"
  "transitions_added (py_print m s) = transitions_added s"
  by (simp_all add: py_print_def)

lemma report_fields:
  "calls (report s) = calls s"
  "host (report s) = host s"
  "clips_selected (report s) = clips_selected s"
  "transitions_added (report s) = transitions_added s"
  by (simp_all add: report_def py_print_fields)

lemma media_settings_update: "media (h\<lparr>settings := x\<rparr>) = media h"
  by (simp add: media_def)

lemma media_selected_update: "media (h\<lparr>selected := x\<rparr>) = media h"
  by (simp add: media_def)

lemma before_loop_media:
  "media (host (call GetTrackCount (call UIDispatcher (after_settings h)))) = media h"
  by (simp add: call_fields after_settings_fields media_settings_update)

lemma after_loop_calls:
  "calls (after_loop e h) =
     [ScriptApp, GetProjectManager, GetCurrentProject, GetCurrentTimeline] @ setting_calls h
     @ [UIDispatcher, GetTrackCount]
     @ concat (map (track_calls (platform e) h) (track_indices h)) @ [ClearClipSelections]"
proof -
  have "track_calls (platform e) (host (call GetTrackCount (call UIDispatcher (after_settings h))))
        = track_calls (platform e) h"
    by (rule ext, rule track_calls_media, rule before_loop_media)
  then show ?thesis
    by (simp add: after_loop_def ClearClipSelections_fields fold_track_body_calls
          call_fields after_settings_fields track_indices_def)
qed

lemma after_loop_counters:
  "transitions_added (after_loop e h) = length (all_pairs h)"
  "clips_selected (after_loop e h) = 2 * length (all_pairs h)"
proof -
  have "track_pairs (host (call GetTrackCount (call UIDispatcher (after_settings h))))
        = track_pairs h"
    by (rule ext, rule track_pairs_media, rule before_loop_media)
  then show "transitions_added (after_loop e h) = length (all_pairs h)"
    and "clips_selected (after_loop e h) = 2 * length (all_pairs h)"
    by (simp_all add: after_loop_def ClearClipSelections_fields fold_track_body_counters
          call_fields after_settings_fields track_indices_def all_pairs_def)
qed

lemma after_loop_host:
  "selected (host (after_loop e h)) = {}"
  "settings (host (after_loop e h)) = settings_after h"
  "media (host (after_loop e h)) = media h"
  by (simp_all add: after_loop_def ClearClipSelections_fields fold_track_body_frame
        fold_track_body_media media_selected_update call_fields after_settings_fields
        media_settings_update)

lemma after_loop_Enabled:
  "Enabled (clips (host (after_loop e h)) c) =
     (c \<in> fst ` set (all_pairs h) \<or> c \<in> snd ` set (all_pairs h) \<or> Enabled (clips h c))"
proof -
  have "track_pairs (host (call GetTrackCount (call UIDispatcher (after_settings h))))
        = track_pairs h"
    by (rule ext, rule track_pairs_media, rule before_loop_media)
  then show ?thesis
    by (simp add: after_loop_def ClearClipSelections_fields fold_track_body_Enabled
          call_fields after_settings_fields track_indices_def all_pairs_def)
qed

lemma main_calls_eq: "calls (snd (main e h)) = main_calls e h"
proof -
  consider "\<not> project_open h"
    | "project_open h" "\<not> timeline_open h"
    | "project_open h" "timeline_open h" "\<not> name_bound e ''bmd''"
    | "project_open h" "timeline_open h" "name_bound e ''bmd''" "tracks h = []"
    | "project_open h" "timeline_open h" "name_bound e ''bmd''" "tracks h \<noteq> []"
    by blast
  then show ?thesis
  proof cases
    case 1
    then show ?thesis
      by (simp add: main_no_project main_calls_def py_print_fields call_fields init_def)
  next
    case 2
    then show ?thesis
      by (simp add: main_no_timeline main_calls_def py_print_fields call_fields init_def)
  next
    case 3
    then show ?thesis
      by (simp add: main_unbound main_calls_def after_settings_fields)
  next
    case 4
    then show ?thesis
      by (simp add: main_no_tracks main_calls_def py_print_fields call_fields
            after_settings_fields)
  next
    case 5
    then show ?thesis
      by (simp add: main_loop main_calls_def report_fields after_loop_calls)
  qed
qed

lemmas eval_defs = main_calls_def setting_calls_def track_calls_def track_indices_def
  stills_of_def is_still_def ordered_stills_def adjacent_pairs_def pair_calls_def
  shortcut_keys_def name_bound_def TRANSITION_NAME_def module_globals_def builtin_names_def

lemma main_outcome:
  "fst (main e h) =
     (if project_open h \<and> timeline_open h \<and> \<not> name_bound e ''bmd''
      then Raised (NameError ''bmd'') else Returned)"
proof -
  consider "\<not> project_open h"
    | "project_open h" "\<not> timeline_open h"
    | "project_open h" "timeline_open h" "\<not> name_bound e ''bmd''"
    | "project_open h" "timeline_open h" "name_bound e ''bmd''" "tracks h = []"
    | "project_open h" "timeline_open h" "name_bound e ''bmd''" "tracks h \<noteq> []"
    by blast
  then show ?thesis
    by cases (simp_all add: main_no_project main_no_timeline main_unbound main_no_tracks
                main_loop)
qed

lemma main_printed_eq: "printed (snd (main e h)) = main_messages e h"
proof -
  consider "\<not> project_open h"
    | "project_open h" "\<not> timeline_open h"
    | "project_open h" "timeline_open h" "\<not> name_bound e ''bmd''"
    | "project_open h" "timeline_open h" "name_bound e ''bmd''" "tracks h = []"
    | "project_open h" "timeline_open h" "name_bound e ''bmd''" "tracks h \<noteq> []"
    by blast
  then show ?thesis
  proof cases
    case 1
    then show ?thesis
      by (simp add: main_no_project main_messages_def py_print_fields call_fields init_def)
  next
    case 2
    then show ?thesis
      by (simp add: main_no_timeline main_messages_def py_print_fields call_fields init_def)
  next
    case 3
    then show ?thesis
      by (simp add: main_unbound main_messages_def after_settings_fields)
  next
    case 4
    then show ?thesis
      by (simp add: main_no_tracks main_messages_def py_print_fields call_fields
            after_settings_fields)
  next
    case 5
    have "printed (after_loop e h) = [setting_message h]"
      by (simp add: after_loop_def ClearClipSelections_fields fold_track_body_frame
            call_fields after_settings_fields)
    with 5 show ?thesis
      by (simp add: main_loop main_messages_def report_def py_print_fields
            after_loop_counters)
  qed
qed

text \<open>
  C8. Claimed: every global name that \<^verbatim>\<open>main\<close> evaluates, \<^verbatim>\<open>bmd\<close> on line 100 in
  particular, is bound before it is evaluated. The module binds no \<^verbatim>\<open>bmd\<close>: run by an
  interpreter that presets none, on an open project and timeline with two stills,
  \<^verbatim>\<open>main\<close> raises \<^verbatim>\<open>NameError\<close> after the settings step and before the track loop.
\<close>

theorem main_plain_python_NameError:
  "''bmd'' \<in> set main_global_names \<and> \<not> name_bound plain_python ''bmd''
   \<and> project_open two_stills \<and> timeline_open two_stills
   \<and> fst (main plain_python two_stills) = Raised (NameError ''bmd'')
   \<and> calls (snd (main plain_python two_stills)) =
       [ScriptApp, GetProjectManager, GetCurrentProject, GetCurrentTimeline,
        GetSetting ''standardVideoTransition'',
        SetSetting ''standardVideoTransition'' ''Additive Dissolve'']"
  by (simp add: main_outcome main_calls_eq eval_defs main_global_names_def
        plain_python_def two_stills_def)

text \<open>
  C2. Claimed: each known failure condition prints its message and none raises. On a
  timeline without video tracks, run by an interpreter that presets no \<^verbatim>\<open>bmd\<close>, the
  script raises \<^verbatim>\<open>NameError\<close> on line 100, before the guard of line 103: the message of
  line 104 is not printed and \<^verbatim>\<open>main\<close> does not return.
\<close>

theorem main_no_video_tracks_NameError:
  "project_open empty_timeline \<and> timeline_open empty_timeline \<and> tracks empty_timeline = []
   \<and> fst (main plain_python empty_timeline) = Raised (NameError ''bmd'')
   \<and> printed (snd (main plain_python empty_timeline)) = [Msg_already_default TRANSITION_NAME]"
  by (simp add: main_outcome main_printed_eq main_messages_def setting_message_def
        eval_defs plain_python_def empty_timeline_def)

text \<open>
  C1. Claimed: per pair the script selects both clips and emits the shortcut, and makes no
  other call on the host. On one track of two stills the run also clears the selection and
  enables both clips for the pair.
\<close>

theorem described_calls_counterexample:
  "calls (snd (main studio_win two_stills)) \<noteq> described_calls studio_win two_stills
   \<and> SetClipEnabled 1 True \<in> set (calls (snd (main studio_win two_stills)))
   \<and> SetClipEnabled 1 True \<notin> set (described_calls studio_win two_stills)"
  by (simp add: main_calls_eq eval_defs described_calls_def described_track_calls_def
        described_pair_calls_def studio_win_def two_stills_def Let_def)

text \<open>
  C1, amended. On a run with an open project, an open timeline and at least one video
  track, in which the name \<^verbatim>\<open>bmd\<close> is bound, \<^verbatim>\<open>main\<close> returns after exactly this sequence
  of calls: the four handle reads, the settings step, \<^verbatim>\<open>UIDispatcher\<close> and
  \<^verbatim>\<open>GetTrackCount\<close>; then for each track index from 1 to the track count, in order, the
  item list, one \<^verbatim>\<open>IsStill\<close> read per item and, when the track has two stills or more, one
  \<^verbatim>\<open>GetStart\<close> per still and for each adjacent pair of the stills ordered by start:
  \<^verbatim>\<open>ClearClipSelections\<close>, \<^verbatim>\<open>SetClipEnabled(True)\<close> on both, \<^verbatim>\<open>Select\<close> on both, the
  two key presses, \<^verbatim>\<open>KeyReleaseAll\<close> and the sleep; and at the end one
  \<^verbatim>\<open>ClearClipSelections\<close>.
\<close>

theorem main_calls_sequence:
  assumes "project_open h" and "timeline_open h" and "tracks h \<noteq> []"
    and "name_bound e ''bmd''"
  shows "fst (main e h) = Returned
    \<and> calls (snd (main e h)) =
        [ScriptApp, GetProjectManager, GetCurrentProject, GetCurrentTimeline]
        @ setting_calls h @ [UIDispatcher, GetTrackCount]
        @ concat (map (track_calls (platform e) h) [1 ..< length (tracks h) + 1])
        @ [ClearClipSelections]"
  using assms by (simp add: main_outcome main_calls_eq main_calls_def track_indices_def)

theorem main_calls_sequence_witness:
  "fst (main studio_win two_stills) = Returned
   \<and> calls (snd (main studio_win two_stills)) =
       [ScriptApp, GetProjectManager, GetCurrentProject, GetCurrentTimeline,
        GetSetting ''standardVideoTransition'',
        SetSetting ''standardVideoTransition'' ''Additive Dissolve'',
        UIDispatcher, GetTrackCount, GetItemListInTrack 1,
        GetClipProperty 1 ''IsStill'', GetClipProperty 2 ''IsStill'', GetStart 1,
        GetStart 2, ClearClipSelections, SetClipEnabled 2 True,
        SetClipEnabled 1 True, Select 2, Select 1, KeyPress ''Ctrl'',
        KeyPress ''T'', KeyReleaseAll, Sleep DEFAULT_UI_TIMEOUT, ClearClipSelections]"
proof -
  have p: "project_open two_stills" "timeline_open two_stills" "tracks two_stills \<noteq> []"
    "name_bound studio_win ''bmd''"
    by (simp_all add: two_stills_def studio_win_def name_bound_def)
  show ?thesis
    using main_calls_sequence [OF p]
    by (simp add: eval_defs studio_win_def two_stills_def Let_def)
qed

end
